theory Spec2Isabelle
  imports Complex_Main "HOL-Library.Multiset"
begin

section \<open>Tensors, errors and the random generator\<close>

text \<open>
  The networks of \<^verbatim>\<open>nn.py\<close> work on batches: a tensor of shape \<open>(B, n)\<close> is the list of
  its \<open>B\<close> rows, each a list of \<open>n\<close> reals. The set encoder works on tensors of shape
  \<open>(B, C, L)\<close>, lists of \<open>B\<close> items of \<open>C\<close> channels of \<open>L\<close> elements. Numbers are
  real numbers: rounding, infinities and NaN of floating point are not represented. The
  width of a batch with no rows is not recorded (\<open>last_dim [] = 0\<close>). A private attribute
  \<^verbatim>\<open>_x\<close> of the source is written \<open>x'\<close>.
\<close>

type_synonym vec = "real list"
type_synonym tensor = "real list list"
type_synonym tensor3 = "real list list list"

text \<open>
  The global generator of torch is the sequence of values it will hand out next; a draw
  takes a prefix and leaves the rest. Initialisers and \<^verbatim>\<open>normal_()\<close> read from it.
\<close>

type_synonym rng = "nat \<Rightarrow> real"

datatype error =
  ValueError | AttributeError | TypeError | IndexError | ZeroDivisionError | RuntimeError

definition and_then :: "error + 'a \<Rightarrow> ('a \<Rightarrow> error + 'b) \<Rightarrow> error + 'b" where
  "and_then r f = (case r of Inl e \<Rightarrow> Inl e | Inr v \<Rightarrow> f v)"

definition LOG_VAR_MAX :: real where "LOG_VAR_MAX = 2"
definition LOG_VAR_MIN :: real where "LOG_VAR_MIN = - 20"

definition last_dim :: "'a list list \<Rightarrow> nat" where
  "last_dim t = (case t of [] \<Rightarrow> 0 | r # _ \<Rightarrow> length r)"

definition draws :: "nat \<Rightarrow> rng \<Rightarrow> vec \<times> rng" where
  "draws n g = (map g [0..<n], \<lambda>i. g (i + n))"

fun draws2 :: "nat \<Rightarrow> nat \<Rightarrow> rng \<Rightarrow> tensor \<times> rng" where
  "draws2 0 c g = ([], g)"
| "draws2 (Suc r) c g =
     (case draws c g of (v, g1) \<Rightarrow> case draws2 r c g1 of (t, g2) \<Rightarrow> (v # t, g2))"

text \<open>\<^verbatim>\<open>torch.empty_like(t).normal_()\<close>: one draw for every entry of \<open>t\<close>, row by row.\<close>

fun normal_like :: "tensor \<Rightarrow> rng \<Rightarrow> tensor \<times> rng" where
  "normal_like [] g = ([], g)"
| "normal_like (r # rs) g =
     (case draws (length r) g of (v, g1) \<Rightarrow> case normal_like rs g1 of (t, g2) \<Rightarrow> (v # t, g2))"

subsection \<open>Element-wise operations with broadcasting\<close>

definition bdim :: "nat \<Rightarrow> nat \<Rightarrow> nat option" where
  "bdim m n = (if m = n then Some m else if m = 1 then Some n else if n = 1 then Some m else None)"

definition expand :: "nat \<Rightarrow> 'a list \<Rightarrow> 'a list" where
  "expand n xs = (if length xs = n then xs else replicate n (hd xs))"

definition broadcast_row :: "(real \<Rightarrow> real \<Rightarrow> real) \<Rightarrow> vec \<Rightarrow> vec \<Rightarrow> error + vec" where
  "broadcast_row f u v =
     (case bdim (length u) (length v) of
        None \<Rightarrow> Inl RuntimeError
      | Some c \<Rightarrow> Inr (map2 f (expand c u) (expand c v)))"

fun collect :: "(error + 'a) list \<Rightarrow> error + 'a list" where
  "collect [] = Inr []"
| "collect (r # rs) = and_then r (\<lambda>v. and_then (collect rs) (\<lambda>vs. Inr (v # vs)))"

definition broadcast2 :: "(real \<Rightarrow> real \<Rightarrow> real) \<Rightarrow> tensor \<Rightarrow> tensor \<Rightarrow> error + tensor" where
  "broadcast2 f a b =
     (case bdim (length a) (length b) of
        None \<Rightarrow> Inl RuntimeError
      | Some r \<Rightarrow> collect (map2 (broadcast_row f) (expand r a) (expand r b)))"

text \<open>\<^verbatim>\<open>torch.minimum\<close>: the element-wise minimum, with broadcasting.\<close>

definition minimum :: "tensor \<Rightarrow> tensor \<Rightarrow> error + tensor" where
  "minimum a b = broadcast2 min a b"

text \<open>\<^verbatim>\<open>torch.cat((a, b), -1)\<close> on two batches: the row counts must agree.\<close>

definition cat :: "tensor \<Rightarrow> tensor \<Rightarrow> error + tensor" where
  "cat a b = (if length a = length b then Inr (map2 (@) a b) else Inl RuntimeError)"

definition clamp :: "tensor \<Rightarrow> real \<Rightarrow> real \<Rightarrow> tensor" where
  "clamp t lo hi = map (map (\<lambda>v. min (max v lo) hi)) t"

definition relu :: "tensor \<Rightarrow> tensor" where
  "relu t = map (map (max 0)) t"

definition dot :: "vec \<Rightarrow> vec \<Rightarrow> real" where
  "dot u v = sum_list (map2 (*) u v)"

text \<open>\<^verbatim>\<open>a @ b\<close> for a batch \<open>a\<close> of shape \<open>(B, n)\<close> and a matrix \<open>b\<close> of shape \<open>(n, m)\<close>.\<close>

definition matmul :: "tensor \<Rightarrow> tensor \<Rightarrow> error + tensor" where
  "matmul a b =
     (if \<forall>r\<in>set a. length r = length b
      then Inr (map (\<lambda>r. map (\<lambda>j. sum_list (map2 (\<lambda>x w. x * w ! j) r b)) [0..<last_dim b]) a)
      else Inl RuntimeError)"

text \<open>\<^verbatim>\<open>v @ b\<close> for a vector \<open>v\<close> of size \<open>n\<close> and a matrix \<open>b\<close> of shape \<open>(n, m)\<close>.\<close>

definition vecmat :: "vec \<Rightarrow> tensor \<Rightarrow> error + vec" where
  "vecmat v b =
     (if length v = length b
      then Inr (map (\<lambda>j. sum_list (map2 (\<lambda>x w. x * w ! j) v b)) [0..<last_dim b])
      else Inl RuntimeError)"

text \<open>\<^verbatim>\<open>v.view(n, -1)\<close>: the flat vector cut into \<open>n\<close> rows of equal length.\<close>

definition view :: "nat \<Rightarrow> vec \<Rightarrow> error + tensor" where
  "view n v =
     (if n = 0 \<or> length v mod n \<noteq> 0 then Inl RuntimeError
      else Inr (map (\<lambda>i. take (length v div n) (drop (i * (length v div n)) v)) [0..<n]))"

text \<open>
  The split used by every probabilistic output: \<^verbatim>\<open>t[:, : t.shape[-1] // 2]\<close> and
  \<^verbatim>\<open>(t[:, t.shape[-1] // 2 :] / 2).exp()\<close>.
\<close>

definition mean_half :: "tensor \<Rightarrow> tensor" where
  "mean_half t = map (take (last_dim t div 2)) t"

definition logvar_half :: "tensor \<Rightarrow> tensor" where
  "logvar_half t = map (drop (last_dim t div 2)) t"

definition std_of :: "tensor \<Rightarrow> tensor" where
  "std_of t = map (map (\<lambda>v. exp (v / 2))) (logvar_half t)"

section \<open>Linear primitives\<close>

datatype pdata = Vec vec | Mat tensor

text \<open>A parameter object is identified by its qualified name in the owning module.\<close>

type_synonym parameter = "string \<times> pdata"

datatype Linear = Linear (in_features: nat) (out_features: nat) (weight: tensor) (bias: vec)

datatype WLinear = WLinear (z: vec) (fc: Linear) (w_idx: nat) (out_f: nat)

datatype BiasLinear = BiasLinear (linear': Linear) (bias': vec) (weight': tensor)

datatype module = Lin Linear | BLin BiasLinear | WLin WLinear | ReLU

text \<open>\<^verbatim>\<open>nn.Linear\<close> of torch: \<open>x W\<^sup>T + b\<close>, on a batch and on a single vector.\<close>

definition Linear_forward :: "Linear \<Rightarrow> tensor \<Rightarrow> error + tensor" where
  "Linear_forward l x =
     (if \<forall>r\<in>set x. length r = in_features l
      then Inr (map (\<lambda>r. map2 (\<lambda>w b. dot r w + b) (weight l) (bias l)) x)
      else Inl RuntimeError)"

definition Linear_forward_vec :: "Linear \<Rightarrow> vec \<Rightarrow> error + vec" where
  "Linear_forward_vec l v =
     (if length v = in_features l
      then Inr (map2 (\<lambda>w b. dot v w + b) (weight l) (bias l))
      else Inl RuntimeError)"

definition WLinear_forward :: "WLinear \<Rightarrow> tensor \<Rightarrow> error + tensor" where
  "WLinear_forward m x =
     and_then (Linear_forward_vec (fc m) (z m)) (\<lambda>theta.
     and_then (view (last_dim x) (take (w_idx m) theta)) (\<lambda>w.
     and_then (matmul x w) (\<lambda>y.
       broadcast2 (+) y [drop (w_idx m) theta])))"

definition BiasLinear_forward :: "BiasLinear \<Rightarrow> tensor \<Rightarrow> error + tensor" where
  "BiasLinear_forward m x =
     and_then (Linear_forward (linear' m) x) (\<lambda>y.
     and_then (vecmat (bias' m) (weight' m)) (\<lambda>c.
       broadcast2 (+) y [c]))"

fun module_forward :: "module \<Rightarrow> tensor \<Rightarrow> error + tensor" where
  "module_forward (Lin l) x = Linear_forward l x"
| "module_forward (BLin b) x = BiasLinear_forward b x"
| "module_forward (WLin w) x = WLinear_forward w x"
| "module_forward ReLU x = Inr (relu x)"

text \<open>\<^verbatim>\<open>nn.Sequential\<close>: named modules, applied in order.\<close>

type_synonym sequential = "(string \<times> module) list"

fun Sequential_forward :: "sequential \<Rightarrow> tensor \<Rightarrow> error + tensor" where
  "Sequential_forward [] x = Inr x"
| "Sequential_forward (m # ms) x = and_then (module_forward (snd m) x) (Sequential_forward ms)"


section \<open>Parameters of the primitives\<close>

fun str_nat :: "nat \<Rightarrow> string" where
  "str_nat n =
     (if n < 10 then [''0123456789'' ! n] else str_nat (n div 10) @ [''0123456789'' ! (n mod 10)])"

declare str_nat.simps [simp del]

text \<open>
  \<^verbatim>\<open>Module.parameters()\<close> of torch lists the registered parameter objects once each,
  the module's own before those of its submodules. \<^verbatim>\<open>WLinear\<close> registers \<^verbatim>\<open>z\<close>, then
  \<^verbatim>\<open>fc.weight\<close> under the name \<^verbatim>\<open>weight\<close>; \<^verbatim>\<open>BiasLinear\<close> registers \<^verbatim>\<open>_bias\<close> and
  \<^verbatim>\<open>_weight\<close> after the submodule \<^verbatim>\<open>_linear\<close>.
\<close>

definition Linear_parameters :: "string \<Rightarrow> Linear \<Rightarrow> parameter list" where
  "Linear_parameters p l = [(p @ ''weight'', Mat (weight l)), (p @ ''bias'', Vec (bias l))]"

definition BiasLinear_parameters :: "string \<Rightarrow> BiasLinear \<Rightarrow> parameter list" where
  "BiasLinear_parameters p m =
     [(p @ ''_bias'', Vec (bias' m)), (p @ ''_weight'', Mat (weight' m))]
     @ Linear_parameters (p @ ''_linear.'') (linear' m)"

definition WLinear_parameters :: "string \<Rightarrow> WLinear \<Rightarrow> parameter list" where
  "WLinear_parameters p m =
     [(p @ ''z'', Vec (z m)), (p @ ''weight'', Mat (weight (fc m))),
      (p @ ''fc.bias'', Vec (bias (fc m)))]"

fun module_parameters :: "string \<Rightarrow> module \<Rightarrow> parameter list" where
  "module_parameters p (Lin l) = Linear_parameters p l"
| "module_parameters p (BLin b) = BiasLinear_parameters p b"
| "module_parameters p (WLin w) = WLinear_parameters p w"
| "module_parameters p ReLU = []"

definition Sequential_parameters :: "string \<Rightarrow> sequential \<Rightarrow> parameter list" where
  "Sequential_parameters p sq = concat (map (\<lambda>(n, m). module_parameters (p @ n @ ''.'') m) sq)"

text \<open>
  \<^verbatim>\<open>w.adaptation_parameters()\<close>: \<^verbatim>\<open>WLinear\<close> answers \<^verbatim>\<open>[self.z]\<close>, \<^verbatim>\<open>BiasLinear\<close> answers
  \<^verbatim>\<open>self.parameters()\<close>. \<^verbatim>\<open>torch.nn.Linear\<close> and \<^verbatim>\<open>torch.nn.ReLU\<close> define no such method,
  and the attribute lookup of a torch module raises \<^verbatim>\<open>AttributeError\<close>.
\<close>

fun adaptation_parameters :: "string \<Rightarrow> module \<Rightarrow> error + parameter list" where
  "adaptation_parameters p (Lin l) = Inl AttributeError"
| "adaptation_parameters p (BLin b) = Inr (BiasLinear_parameters p b)"
| "adaptation_parameters p (WLin w) = Inr [(p @ ''z'', Vec (z w))]"
| "adaptation_parameters p ReLU = Inl AttributeError"

section \<open>Constructors of the primitives\<close>

text \<open>
  The initialisers fill a new parameter with the generator's next values. The scale
  \<^verbatim>\<open>1.0 / out_features\<close> (\<^verbatim>\<open>1.0 / bias_size\<close>) is computed in Python and raises
  \<^verbatim>\<open>ZeroDivisionError\<close> for a zero width.
\<close>

definition Linear_init :: "nat \<Rightarrow> nat \<Rightarrow> rng \<Rightarrow> Linear \<times> rng" where
  "Linear_init n_in n_out g =
     (case draws2 n_out n_in g of (w, g1) \<Rightarrow>
      case draws n_out g1 of (b, g2) \<Rightarrow> (Linear n_in n_out w b, g2))"

definition WLinear_dim :: nat where "WLinear_dim = 100"

definition WLinear_init :: "nat \<Rightarrow> nat \<Rightarrow> rng \<Rightarrow> error + (WLinear \<times> rng)" where
  "WLinear_init n_in n_out g =
     (if n_out = 0 then Inl ZeroDivisionError
      else case draws WLinear_dim g of (zv, g1) \<Rightarrow>
           case Linear_init WLinear_dim (n_in * n_out + n_out) g1 of (l, g2) \<Rightarrow>
             Inr (WLinear zv l (n_in * n_out) n_out, g2))"

definition BiasLinear_init :: "nat \<Rightarrow> nat \<Rightarrow> rng \<Rightarrow> error + (BiasLinear \<times> rng)" where
  "BiasLinear_init n_in n_out g =
     (let bias_size = n_out in
      case Linear_init n_in n_out g of (l, g1) \<Rightarrow>
        if bias_size = 0 then Inl ZeroDivisionError
        else case draws n_out g1 of (b, g2) \<Rightarrow>
             case draws2 bias_size n_out g2 of (w, g3) \<Rightarrow> Inr (BiasLinear l b w, g3))"

datatype linear_class = Linear_class | BiasLinear_class | WLinear_class

fun new_linear :: "linear_class \<Rightarrow> nat \<Rightarrow> nat \<Rightarrow> rng \<Rightarrow> error + (module \<times> rng)" where
  "new_linear Linear_class n_in n_out g = (case Linear_init n_in n_out g of (l, g1) \<Rightarrow> Inr (Lin l, g1))"
| "new_linear BiasLinear_class n_in n_out g =
     and_then (BiasLinear_init n_in n_out g) (\<lambda>(b, g1). Inr (BLin b, g1))"
| "new_linear WLinear_class n_in n_out g =
     and_then (WLinear_init n_in n_out g) (\<lambda>(w, g1). Inr (WLin w, g1))"

section \<open>The network builder \<^verbatim>\<open>MLP\<close>\<close>

record MLP =
  final_activation' :: "tensor \<Rightarrow> tensor"
  seq :: sequential
  head' :: bool
  deterministic :: bool
  layer_widths :: "nat list"
  bias_linear :: bool
  aparams :: "parameter list"
  pre_seq :: sequential
  post_seq :: sequential
  head_seq :: sequential

text \<open>
  The loop \<^verbatim>\<open>for idx in range(len(layer_widths) - 1)\<close>; the fourth argument counts the
  iterations left.
\<close>

fun fc_loop :: "linear_class \<Rightarrow> nat list \<Rightarrow> nat \<Rightarrow> nat \<Rightarrow> sequential \<times> parameter list \<times> rng
                \<Rightarrow> error + (sequential \<times> parameter list \<times> rng)" where
  "fc_loop cls lw idx 0 st = Inr st"
| "fc_loop cls lw idx (Suc n) (sq, ap, g) =
     and_then (new_linear cls (lw ! idx) (lw ! (idx + 1)) g) (\<lambda>(w, g1).
     and_then (adaptation_parameters (''seq.fc_'' @ str_nat idx @ ''.'') w) (\<lambda>ps.
       fc_loop cls lw (idx + 1) n
         (sq @ [(''fc_'' @ str_nat idx, w)]
             @ (if idx < length lw - 2 then [(''relu_'' @ str_nat idx, ReLU)] else []),
          ap @ ps, g1)))"

text \<open>The loop over \<^verbatim>\<open>zip(extra_head_layers[:-1], extra_head_layers[1:])\<close>.\<close>

fun head_loop :: "linear_class \<Rightarrow> nat list \<Rightarrow> nat \<Rightarrow> nat \<Rightarrow> sequential \<times> parameter list \<times> rng
                  \<Rightarrow> error + (sequential \<times> parameter list \<times> rng)" where
  "head_loop cls ehl idx 0 st = Inr st"
| "head_loop cls ehl idx (Suc n) (sq, ap, g) =
     and_then (new_linear cls (ehl ! idx) (ehl ! (idx + 1)) g) (\<lambda>(w, g1).
     and_then (adaptation_parameters (''head_seq.fc_'' @ str_nat idx @ ''.'') w) (\<lambda>ps.
       head_loop cls ehl (idx + 1) n
         (sq @ [(''relu_'' @ str_nat idx, ReLU), (''fc_'' @ str_nat idx, w)], ap @ ps, g1)))"

definition MLP_init :: "nat list \<Rightarrow> (tensor \<Rightarrow> tensor) \<Rightarrow> bool \<Rightarrow> nat list option \<Rightarrow> bool \<Rightarrow> bool
                        \<Rightarrow> rng \<Rightarrow> error + (MLP \<times> rng)" where
  "MLP_init widths activation bias_lin extra_head_layers w_linear determ g =
     (if length widths < 2 then Inl ValueError
      else
        let n = length widths;
            doubled = (if \<not> determ then widths[n - 1 := widths ! (n - 1) * 2] else widths);
            linear = (if \<not> w_linear
                      then (if bias_lin then BiasLinear_class else Linear_class)
                      else WLinear_class)
        in and_then (fc_loop linear doubled 0 (length doubled - 1) ([], [], g)) (\<lambda>(sq, ap, g1).
           case extra_head_layers of
             None \<Rightarrow>
               Inr (\<lparr>final_activation' = activation, seq = sq, head' = False,
                     deterministic = determ, layer_widths = widths,
                     bias_linear = bias_lin, aparams = ap,
                     pre_seq = [], post_seq = [], head_seq = []\<rparr>, g1)
           | Some extra \<Rightarrow>
               let ehl = (widths ! (n - 2) + widths ! (n - 1)) # extra
               in and_then (head_loop linear ehl 0 (length ehl - 1) ([], ap, g1)) (\<lambda>(hs, ap2, g2).
                  Inr (\<lparr>final_activation' = activation, seq = sq, head' = True,
                        deterministic = determ, layer_widths = widths,
                        bias_linear = bias_lin, aparams = ap2,
                        pre_seq = take (length sq - 2) sq, post_seq = drop (length sq - 2) sq,
                        head_seq = hs\<rparr>, g2))))"

text \<open>
  \<^verbatim>\<open>MLP.adaptation_parameters\<close> returns \<^verbatim>\<open>self.parameters()\<close>: the parameters of the
  modules of \<^verbatim>\<open>seq\<close>, then those of \<^verbatim>\<open>head_seq\<close> (\<^verbatim>\<open>pre_seq\<close> and \<^verbatim>\<open>post_seq\<close> hold the
  modules of \<^verbatim>\<open>seq\<close> again, and a parameter is listed once).
\<close>

definition MLP_parameters :: "MLP \<Rightarrow> parameter list" where
  "MLP_parameters m =
     Sequential_parameters ''seq.'' (seq m) @ Sequential_parameters ''head_seq.'' (head_seq m)"

definition MLP_adaptation_parameters :: "MLP \<Rightarrow> parameter list" where
  "MLP_adaptation_parameters m = MLP_parameters m"

text \<open>
  The four shapes of what \<^verbatim>\<open>MLP.forward\<close> returns: a tensor, \<^verbatim>\<open>(mu, sigma)\<close>,
  \<^verbatim>\<open>(mu_logvar, head_output)\<close> and \<^verbatim>\<open>((mu, sigma), head_output)\<close>.
\<close>

datatype mlp_out =
    Out tensor
  | MuSigma tensor tensor
  | OutHead tensor tensor
  | MuSigmaHead tensor tensor tensor

definition MLP_forward :: "MLP \<Rightarrow> tensor \<Rightarrow> tensor option \<Rightarrow> error + mlp_out" where
  "MLP_forward m x acts =
     (if head' m \<and> acts \<noteq> None then
        and_then (Sequential_forward (pre_seq m) x) (\<lambda>h.
        and_then (cat h (the acts)) (\<lambda>head_input.
        and_then (Sequential_forward (post_seq m) h) (\<lambda>y.
          let mu_logvar = clamp (final_activation' m y) LOG_VAR_MIN LOG_VAR_MAX
          in and_then (Sequential_forward (head_seq m) head_input) (\<lambda>head_output.
               if deterministic m then Inr (OutHead mu_logvar head_output)
               else Inr (MuSigmaHead (mean_half mu_logvar) (std_of mu_logvar) head_output)))))
      else if deterministic m then
        and_then (Sequential_forward (seq m) x) (\<lambda>y. Inr (Out (final_activation' m y)))
      else
        and_then (Sequential_forward (seq m) x) (\<lambda>y.
          let mu_logvar = final_activation' m y
          in Inr (MuSigma (mean_half mu_logvar) (std_of mu_logvar))))"


section \<open>The set encoder \<^verbatim>\<open>DeepSet\<close>\<close>

text \<open>
  \<^verbatim>\<open>nn.Conv1d(d, d_, 1)\<close>: the kernel has size one, so the weight of shape \<open>(d_, d, 1)\<close>
  is a \<open>d_ \<times> d\<close> matrix, and output channel \<open>o\<close> at position \<open>l\<close> is
  \<open>b\<^sub>o + \<Sum>\<^sub>c w\<^sub>o\<^sub>c x\<^sub>c\<^sub>l\<close>. An input without positions is refused by torch.
\<close>

datatype Conv1d =
  Conv1d (in_channels: nat) (out_channels: nat) (conv_weight: tensor) (conv_bias: vec)

datatype enc_module = Conv Conv1d | Relu

text \<open>One output channel: the bias at each of the \<open>L\<close> positions plus the weighted channels.\<close>

definition lin_comb :: "vec \<Rightarrow> tensor \<Rightarrow> real \<Rightarrow> nat \<Rightarrow> vec" where
  "lin_comb w chs b L =
     foldr (map2 (+)) (map2 (\<lambda>wc ch. map (\<lambda>v. wc * v) ch) w chs) (replicate L b)"

definition Conv1d_item :: "Conv1d \<Rightarrow> tensor \<Rightarrow> error + tensor" where
  "Conv1d_item c chs =
     (let L = last_dim chs
      in if length chs = in_channels c \<and> (\<forall>ch\<in>set chs. length ch = L) \<and> 0 < L
         then Inr (map2 (\<lambda>w b. lin_comb w chs b L) (conv_weight c) (conv_bias c))
         else Inl RuntimeError)"

definition Conv1d_forward :: "Conv1d \<Rightarrow> tensor3 \<Rightarrow> error + tensor3" where
  "Conv1d_forward c x = collect (map (Conv1d_item c) x)"

fun enc_module_forward :: "enc_module \<Rightarrow> tensor3 \<Rightarrow> error + tensor3" where
  "enc_module_forward (Conv c) x = Conv1d_forward c x"
| "enc_module_forward Relu x = Inr (map relu x)"

fun encoder_forward :: "(string \<times> enc_module) list \<Rightarrow> tensor3 \<Rightarrow> error + tensor3" where
  "encoder_forward [] x = Inr x"
| "encoder_forward (m # ms) x = and_then (enc_module_forward (snd m) x) (encoder_forward ms)"

text \<open>\<^verbatim>\<open>self.aggregator = lambda x: x.mean(-1)\<close>\<close>

definition aggregator :: "tensor3 \<Rightarrow> tensor" where
  "aggregator x = map (map (\<lambda>ch. sum_list ch / real (length ch))) x"

record DeepSet =
  encoder :: "(string \<times> enc_module) list"

definition DeepSet_forward :: "DeepSet \<Rightarrow> tensor3 \<Rightarrow> error + tensor" where
  "DeepSet_forward d x = and_then (encoder_forward (encoder d) x) (\<lambda>encodings. Inr (aggregator encodings))"

definition Conv1d_init :: "nat \<Rightarrow> nat \<Rightarrow> rng \<Rightarrow> Conv1d \<times> rng" where
  "Conv1d_init d d' g =
     (case draws2 d' d g of (w, g1) \<Rightarrow> case draws d' g1 of (b, g2) \<Rightarrow> (Conv1d d d' w b, g2))"

text \<open>
  The loop over \<^verbatim>\<open>zip(encoder_hidden[:-1], encoder_hidden[1:])\<close>; \<^verbatim>\<open>nn.Sequential(*encoders)\<close>
  names the modules by position.
\<close>

fun conv_loop :: "nat list \<Rightarrow> nat \<Rightarrow> nat \<Rightarrow> enc_module list \<times> rng \<Rightarrow> enc_module list \<times> rng" where
  "conv_loop eh idx 0 st = st"
| "conv_loop eh idx (Suc n) (encoders, g) =
     (case Conv1d_init (eh ! idx) (eh ! (idx + 1)) g of (c, g1) \<Rightarrow>
        conv_loop eh (idx + 1) n
          (encoders @ [Conv c] @ (if idx < length eh - 1 then [Relu] else []), g1))"

definition positional :: "'a list \<Rightarrow> (string \<times> 'a) list" where
  "positional ms = zip (map str_nat [0..<length ms]) ms"

definition DeepSet_init :: "nat \<Rightarrow> nat \<Rightarrow> nat list \<Rightarrow> nat \<Rightarrow> rng \<Rightarrow> DeepSet \<times> rng" where
  "DeepSet_init element_dim encoding_dim encoder_hidden output_dim g =
     (let eh = [element_dim] @ encoder_hidden @ [encoding_dim]
      in case conv_loop eh 0 (length eh - 1) ([], g) of
           (encoders, g1) \<Rightarrow> (\<lparr>encoder = positional encoders\<rparr>, g1))"

section \<open>The latent-variable model \<^verbatim>\<open>CVAE\<close>\<close>

record CVAE =
  encoder' :: MLP
  prior' :: "MLP option"
  decoder' :: MLP
  traj_encoder' :: DeepSet
  preprocess' :: "(MLP \<times> MLP) option"
  z' :: "tensor option"
  latent_dim' :: nat

text \<open>
  \<^verbatim>\<open>preprocess'\<close> holds \<^verbatim>\<open>(_state_preprocess, _latent_preprocess)\<close> when the closure
  \<^verbatim>\<open>_preprocess\<close> is set. Where the source indexes or concatenates what a sub-network
  returned, a tuple in place of a tensor raises: \<^verbatim>\<open>AttributeError\<close> for \<^verbatim>\<open>.shape\<close>,
  \<^verbatim>\<open>TypeError\<close> for \<^verbatim>\<open>torch.cat\<close>.
\<close>

definition tensor_of :: "error \<Rightarrow> mlp_out \<Rightarrow> error + tensor" where
  "tensor_of e r = (case r of Out t \<Rightarrow> Inr t | _ \<Rightarrow> Inl e)"

definition CVAE_sample :: "tensor \<Rightarrow> rng \<Rightarrow> error + (tensor \<times> rng)" where
  "CVAE_sample mu_logvar g =
     (let mu = mean_half mu_logvar;
          std = std_of mu_logvar
      in case normal_like mu g of (noise, g1) \<Rightarrow>
           and_then (broadcast2 (*) noise std) (\<lambda>scaled.
           and_then (broadcast2 (+) scaled mu) (\<lambda>s. Inr (s, g1))))"

text \<open>
  The tail common to \<^verbatim>\<open>encode\<close>, \<^verbatim>\<open>prior\<close> and \<^verbatim>\<open>decode\<close>:
  \<^verbatim>\<open>return mu_logvar, self.sample(mu_logvar)\<close> if \<^verbatim>\<open>sample\<close>, else \<^verbatim>\<open>return mu_logvar\<close>.
\<close>

definition with_sample :: "mlp_out \<Rightarrow> bool \<Rightarrow> rng \<Rightarrow> error + ((mlp_out \<times> tensor option) \<times> rng)" where
  "with_sample mu_logvar smp g =
     (if smp then
        and_then (tensor_of AttributeError mu_logvar) (\<lambda>t.
        and_then (CVAE_sample t g) (\<lambda>(s, g1). Inr ((mu_logvar, Some s), g1)))
      else Inr ((mu_logvar, None), g))"

definition CVAE_encode :: "CVAE \<Rightarrow> tensor3 \<Rightarrow> bool \<Rightarrow> rng \<Rightarrow> error + ((mlp_out \<times> tensor option) \<times> rng)" where
  "CVAE_encode c traj smp g =
     and_then (DeepSet_forward (traj_encoder' c) traj) (\<lambda>traj_encoding.
     and_then (MLP_forward (encoder' c) traj_encoding None) (\<lambda>mu_logvar.
       with_sample mu_logvar smp g))"









text \<open>
  The attribute assignments of \<^verbatim>\<open>CVAE.__init__\<close>, once the sub-networks are built:
  the last two are \<^verbatim>\<open>self._z = None\<close> and \<^verbatim>\<open>self._latent_dim = latent_dim\<close>.
\<close>

definition CVAE_new :: "MLP \<Rightarrow> MLP option \<Rightarrow> MLP \<Rightarrow> DeepSet \<Rightarrow> (MLP \<times> MLP) option \<Rightarrow> nat \<Rightarrow> CVAE" where
  "CVAE_new enc pri dec te pre latent_dim =
     \<lparr>encoder' = enc, prior' = pri, decoder' = dec, traj_encoder' = te,
      preprocess' = pre, z' = None, latent_dim' = latent_dim\<rparr>"

text \<open>Every \<^verbatim>\<open>MLP(...)\<close> of \<^verbatim>\<open>CVAE.__init__\<close> passes the width list alone.\<close>

definition MLP_default :: "nat list \<Rightarrow> rng \<Rightarrow> error + (MLP \<times> rng)" where
  "MLP_default widths g = MLP_init widths (\<lambda>x. x) False None False True g"

definition CVAE_init :: "nat \<Rightarrow> nat \<Rightarrow> nat \<Rightarrow> nat \<Rightarrow> nat list \<Rightarrow> nat list \<Rightarrow> nat list \<Rightarrow> bool \<Rightarrow> bool
                         \<Rightarrow> rng \<Rightarrow> error + (CVAE \<times> rng)" where
  "CVAE_init observation_dim action_dim traj_dim latent_dim encoder_hidden prior_hidden
             decoder_hidden condition_prior preprocess g =
     and_then (MLP_default ([traj_dim] @ encoder_hidden @ [latent_dim * 2]) g) (\<lambda>(enc, g1).
     and_then (if condition_prior
               then and_then (MLP_default ([observation_dim] @ encoder_hidden @ [latent_dim * 2]) g1)
                             (\<lambda>(p, g2). Inr (Some p, g2))
               else Inr (None, g1)) (\<lambda>(pri, g2).
     let decoder_input_dim = (if \<not> preprocess then latent_dim + observation_dim else latent_dim * 2)
     in and_then (MLP_default ([decoder_input_dim] @ decoder_hidden @ [action_dim * 2]) g2) (\<lambda>(dec, g3).
        case DeepSet_init (observation_dim + action_dim) traj_dim [128, 128] 128 g3 of (te, g4) \<Rightarrow>
        and_then (if preprocess
                  then and_then (MLP_default ([observation_dim] @ decoder_hidden @ [latent_dim]) g4)
                                (\<lambda>(sp, g5).
                       and_then (MLP_default ([latent_dim] @ decoder_hidden @ [latent_dim]) g5)
                                (\<lambda>(lp, g6). Inr (Some (sp, lp), g6)))
                  else Inr (None, g4)) (\<lambda>(pre, g5).
          Inr (CVAE_new enc pri dec te pre latent_dim, g5)))))"

section \<open>The twin critic \<^verbatim>\<open>TwinValueFunction\<close>\<close>

record TwinValueFunction =
  obs_dim :: nat
  act_dim :: nat
  f1 :: sequential
  f2 :: sequential

fun hidden_layers :: "nat \<Rightarrow> nat \<Rightarrow> rng \<Rightarrow> error + (module list \<times> rng)" where
  "hidden_layers 0 hidden_dim g = Inr ([], g)"
| "hidden_layers (Suc n) hidden_dim g =
     and_then (WLinear_init hidden_dim hidden_dim g) (\<lambda>(w, g1).
     and_then (hidden_layers n hidden_dim g1) (\<lambda>(layers, g2). Inr (WLin w # ReLU # layers, g2)))"

definition get_model_layers :: "nat \<Rightarrow> nat \<Rightarrow> nat \<Rightarrow> nat \<Rightarrow> rng \<Rightarrow> error + (module list \<times> rng)" where
  "get_model_layers observation_dim action_dim hidden_dim depth g =
     and_then (WLinear_init (observation_dim + action_dim) hidden_dim g) (\<lambda>(w0, g1).
     and_then (hidden_layers (depth - 2) hidden_dim g1) (\<lambda>(layers, g2).
     and_then (WLinear_init hidden_dim 1 g2) (\<lambda>(w1, g3).
       Inr ([WLin w0, ReLU] @ layers @ [WLin w1], g3))))"

definition TwinValueFunction_init :: "nat \<Rightarrow> nat \<Rightarrow> nat \<Rightarrow> nat \<Rightarrow> rng
                                      \<Rightarrow> error + (TwinValueFunction \<times> rng)" where
  "TwinValueFunction_init observation_dim action_dim hidden_dim depth g =
     and_then (get_model_layers observation_dim action_dim hidden_dim depth g) (\<lambda>(l1, g1).
     and_then (get_model_layers observation_dim action_dim hidden_dim depth g1) (\<lambda>(l2, g2).
       Inr (\<lparr>obs_dim = observation_dim, act_dim = action_dim,
             f1 = positional l1, f2 = positional l2\<rparr>, g2)))"

datatype twin_out = Minimum tensor | Both tensor tensor

definition TwinValueFunction_forward :: "TwinValueFunction \<Rightarrow> tensor \<Rightarrow> bool \<Rightarrow> error + twin_out" where
  "TwinValueFunction_forward t x return_min =
     and_then (Sequential_forward (f1 t) x) (\<lambda>x1.
     and_then (Sequential_forward (f2 t) x) (\<lambda>x2.
       if return_min then and_then (minimum x1 x2) (\<lambda>m. Inr (Minimum m))
       else Inr (Both x1 x2)))"


section \<open>Notions used by the properties\<close>

text \<open>
  Reordering the trailing (element) axis, \<^verbatim>\<open>x[:, :, p]\<close>: position \<open>j\<close> of the result holds
  element \<open>p ! j\<close>. The index list \<open>p\<close> is a permutation of \<open>0, \<dots>, L - 1\<close> when sorting
  it gives exactly these indices.
\<close>

definition permute :: "nat list \<Rightarrow> 'a list \<Rightarrow> 'a list" where
  "permute p xs = map (\<lambda>i. xs ! i) p"

definition permute_last :: "nat list \<Rightarrow> tensor3 \<Rightarrow> tensor3" where
  "permute_last p x = map (map (permute p)) x"

definition is_permutation :: "nat list \<Rightarrow> nat \<Rightarrow> bool" where
  "is_permutation p L = (sort p = [0..<L])"

definition has_length :: "nat \<Rightarrow> tensor3 \<Rightarrow> bool" where
  "has_length L x = (\<forall>item\<in>set x. \<forall>ch\<in>set item. length ch = L)"



text \<open>Bounds on the entries of a tensor.\<close>

definition entries_within :: "real \<Rightarrow> real \<Rightarrow> tensor \<Rightarrow> bool" where
  "entries_within lo hi t = (\<forall>r\<in>set t. \<forall>v\<in>set r. lo \<le> v \<and> v \<le> hi)"






section \<open>Basic facts\<close>

lemma and_then_Inl [simp]: "and_then (Inl e) f = Inl e"
  by (simp add: and_then_def)

lemma and_then_Inr [simp]: "and_then (Inr v) f = f v"
  by (simp add: and_then_def)

lemma and_then_eq_Inr: "and_then r f = Inr y \<longleftrightarrow> (\<exists>v. r = Inr v \<and> f v = Inr y)"
  by (cases r) simp_all

lemmas init_eval =
  MLP_init_def Let_def Linear_init_def BiasLinear_init_def WLinear_init_def draws_def
  numeral_2_eq_2 str_nat.simps BiasLinear_parameters_def Linear_parameters_def

lemmas forward_eval =
  MLP_forward_def BiasLinear_forward_def Linear_forward_def WLinear_forward_def
  vecmat_def matmul_def view_def dot_def cat_def clamp_def relu_def
  broadcast2_def broadcast_row_def bdim_def expand_def last_dim_def
  mean_half_def std_of_def logvar_half_def LOG_VAR_MAX_def LOG_VAR_MIN_def


section \<open>The network builder: forward without an auxiliary input\<close>

lemma MLP_forward_None:
  "MLP_forward m x None =
     and_then (Sequential_forward (seq m) x) (\<lambda>y.
       Inr (if deterministic m then Out (final_activation' m y)
            else MuSigma (mean_half (final_activation' m y)) (std_of (final_activation' m y))))"
  by (simp add: MLP_forward_def Let_def)

lemma MLP_init_seq_head:
  assumes "MLP_init ws fa bl (Some extra) wl det g = Inr (m, g1)"
  shows "\<exists>m0 g0. MLP_init ws fa bl None wl det g = Inr (m0, g0) \<and> seq m0 = seq m
           \<and> deterministic m0 = det \<and> final_activation' m0 = fa
           \<and> deterministic m = det \<and> final_activation' m = fa \<and> head' m \<and> \<not> head' m0"
  using assms
  by (auto simp add: MLP_init_def Let_def and_then_eq_Inr split: if_splits)


text \<open>
  C10. An \<^verbatim>\<open>MLP\<close> constructed with \<^verbatim>\<open>extra_head_layers\<close> and called with \<^verbatim>\<open>acts=None\<close>
  returns the primary output alone: the final activation of \<^verbatim>\<open>seq(x)\<close> in deterministic
  mode, \<^verbatim>\<open>(mu, sigma)\<close> split from it in probabilistic mode, with no clamp and no head
  output. It is what the network constructed from the same arguments and the same generator
  state without a head returns.
\<close>

theorem MLP_forward_head_without_acts:
  assumes "MLP_init ws fa bl (Some extra) wl det g = Inr (m, g1)"
  shows "head' m \<and>
         MLP_forward m x None =
           and_then (Sequential_forward (seq m) x) (\<lambda>y.
             Inr (if det then Out (fa y) else MuSigma (mean_half (fa y)) (std_of (fa y)))) \<and>
         (\<exists>m0 g0. MLP_init ws fa bl None wl det g = Inr (m0, g0) \<and> \<not> head' m0 \<and>
                   MLP_forward m x None = MLP_forward m0 x None)"
proof -
  from MLP_init_seq_head [OF assms] obtain m0 g0 where
    h: "MLP_init ws fa bl None wl det g = Inr (m0, g0)" "seq m0 = seq m"
       "deterministic m0 = det" "final_activation' m0 = fa"
       "deterministic m = det" "final_activation' m = fa" "head' m" "\<not> head' m0"
    by blast
  have "MLP_forward m x None = MLP_forward m0 x None"
    unfolding MLP_forward_None h by (rule refl)
  moreover have "MLP_forward m x None =
           and_then (Sequential_forward (seq m) x) (\<lambda>y.
             Inr (if det then Out (fa y) else MuSigma (mean_half (fa y)) (std_of (fa y))))"
    unfolding MLP_forward_None h by (rule refl)
  ultimately show ?thesis
    using h(1,7,8) by blast
qed


theorem MLP_forward_head_without_acts_witness:
  "\<exists>m g1. MLP_init [1, 1] (\<lambda>x. x) True (Some [1]) False True (\<lambda>_. 1 / 2) = Inr (m, g1) \<and>
     head' m \<and> MLP_forward m [[100]] None = Inr (Out [[203 / 4]]) \<and>
     (\<exists>m0 g0. MLP_init [1, 1] (\<lambda>x. x) True None False True (\<lambda>_. 1 / 2) = Inr (m0, g0) \<and>
        \<not> head' m0 \<and> MLP_forward m [[100]] None = MLP_forward m0 [[100]] None)"
proof -
  obtain m g1 where
    c: "MLP_init [1, 1] (\<lambda>x. x) True (Some [1]) False True (\<lambda>_. 1 / 2) = Inr (m, g1)"
    by (simp add: init_eval)
  have s: "seq m = [(''fc_0'', BLin (BiasLinear (Linear 1 1 [[1 / 2]] [1 / 2]) [1 / 2] [[1 / 2]]))]"
    using c by (auto simp add: init_eval)
  note t = MLP_forward_head_without_acts [OF c, of "[[100]]"]
  have "MLP_forward m [[100]] None = Inr (Out [[203 / 4]])"
    using t by (simp add: s forward_eval)
  with c t show ?thesis
    by blast
qed


text \<open>
  C1. The probabilistic branch without an auxiliary input does not clamp. The network
  \<^verbatim>\<open>MLP([1, 1], bias_linear=True, deterministic=False)\<close> with every parameter at \<open>1/2\<close>
  maps the input \<open>[[100]]\<close> to mean \<open>51\<close> and standard deviation \<open>exp (51/2)\<close>, above the
  bound \<open>exp (LOG_VAR_MAX / 2)\<close>.
\<close>

theorem MLP_probabilistic_without_clamp:
  "\<exists>m g1. MLP_init [1, 1] (\<lambda>x. x) True None False False (\<lambda>_. 1 / 2) = Inr (m, g1) \<and>
     MLP_forward m [[100]] None = Inr (MuSigma [[51]] [[exp (51 / 2)]]) \<and>
     exp (LOG_VAR_MAX / 2) < exp (51 / 2)"
  by (simp add: init_eval forward_eval)


text \<open>
  The branch taken with a head and an auxiliary input does clamp: there the returned
  standard deviation lies within \<open>[exp (LOG_VAR_MIN / 2), exp (LOG_VAR_MAX / 2)]\<close>.
\<close>

lemma clamp_within: "v \<in> set r \<Longrightarrow> r \<in> set (clamp t lo hi) \<Longrightarrow> lo \<le> hi \<Longrightarrow> lo \<le> v \<and> v \<le> hi"
  by (auto simp add: clamp_def)

lemma logvar_half_subset: "r \<in> set (logvar_half t) \<Longrightarrow> v \<in> set r \<Longrightarrow> \<exists>r'\<in>set t. v \<in> set r'"
  by (auto simp add: logvar_half_def dest: in_set_dropD)

lemma MLP_forward_head_std_within:
  assumes "MLP_forward m x (Some a) = Inr (MuSigmaHead mu sigma head_output)"
  shows "entries_within (exp (LOG_VAR_MIN / 2)) (exp (LOG_VAR_MAX / 2)) sigma"
proof -
  from assms obtain y where
    s: "sigma = std_of (clamp (final_activation' m y) LOG_VAR_MIN LOG_VAR_MAX)"
    by (auto simp add: MLP_forward_def Let_def and_then_eq_Inr split: if_splits)
  show ?thesis
    unfolding entries_within_def s std_of_def
  proof (intro ballI)
    fix r v assume "r \<in> set (map (map (\<lambda>v. exp (v / 2)))
        (logvar_half (clamp (final_activation' m y) LOG_VAR_MIN LOG_VAR_MAX)))" "v \<in> set r"
    then obtain r0 u where "r0 \<in> set (logvar_half (clamp (final_activation' m y) LOG_VAR_MIN LOG_VAR_MAX))"
      "u \<in> set r0" "v = exp (u / 2)"
      by auto
    moreover from this logvar_half_subset obtain r' where
      "r' \<in> set (clamp (final_activation' m y) LOG_VAR_MIN LOG_VAR_MAX)" "u \<in> set r'"
      by blast
    then have "LOG_VAR_MIN \<le> u \<and> u \<le> LOG_VAR_MAX"
      using clamp_within [of u r'] by (simp add: LOG_VAR_MIN_def LOG_VAR_MAX_def)
    ultimately show "exp (LOG_VAR_MIN / 2) \<le> v \<and> v \<le> exp (LOG_VAR_MAX / 2)"
      by simp
  qed
qed

text \<open>
  C4. The head branch clamps before it tests \<^verbatim>\<open>deterministic\<close>. The deterministic network
  \<^verbatim>\<open>MLP([1, 1], bias_linear=True, extra_head_layers=[1])\<close> with every parameter at \<open>1/2\<close>
  has the post-activation output \<open>203/4\<close> at the input \<open>[[100]]\<close>; called with the auxiliary
  input \<open>[[0]]\<close> it returns \<open>2\<close> as its primary output.
\<close>

theorem MLP_deterministic_head_clamps:
  "\<exists>m g1. MLP_init [1, 1] (\<lambda>x. x) True (Some [1]) False True (\<lambda>_. 1 / 2) = Inr (m, g1) \<and>
     MLP_forward m [[100]] None = Inr (Out [[203 / 4]]) \<and>
     MLP_forward m [[100]] (Some [[0]]) = Inr (OutHead [[2]] [[203 / 4]])"
  by (simp add: init_eval forward_eval)

section \<open>The network builder: construction\<close>

text \<open>
  \<^verbatim>\<open>ValueError\<close> is raised exactly for fewer than two widths. With the default primitive
  every longer list raises \<^verbatim>\<open>AttributeError\<close>; with \<^verbatim>\<open>bias_linear\<close> or \<^verbatim>\<open>w_linear\<close> and
  a positive output width, two widths give one linear primitive and no \<^verbatim>\<open>ReLU\<close>.
\<close>

lemma new_linear_not_ValueError: "new_linear cls a b g \<noteq> Inl ValueError"
  by (cases cls)
     (auto simp add: BiasLinear_init_def WLinear_init_def Let_def and_then_def split_def
           split: sum.splits if_splits)

lemma adaptation_parameters_not_ValueError: "adaptation_parameters p w \<noteq> Inl ValueError"
  by (cases w) simp_all

lemma fc_loop_not_ValueError: "fc_loop cls lw idx n st \<noteq> Inl ValueError"
proof (induction n arbitrary: idx st)
  case 0
  then show ?case by simp
next
  case (Suc n)
  obtain sq ap g where st: "st = (sq, ap, g)" by (cases st)
  show ?case
    using new_linear_not_ValueError [of cls "lw ! idx" "lw ! (idx + 1)" g]
      adaptation_parameters_not_ValueError Suc.IH
    unfolding st
    by (auto simp add: and_then_def split: sum.splits)
qed

lemma head_loop_not_ValueError: "head_loop cls lw idx n st \<noteq> Inl ValueError"
proof (induction n arbitrary: idx st)
  case 0
  then show ?case by simp
next
  case (Suc n)
  obtain sq ap g where st: "st = (sq, ap, g)" by (cases st)
  show ?case
    using new_linear_not_ValueError [of cls "lw ! idx" "lw ! (idx + 1)" g]
      adaptation_parameters_not_ValueError Suc.IH
    unfolding st
    by (auto simp add: and_then_def split: sum.splits)
qed

lemma MLP_init_ValueError_iff:
  "MLP_init ws fa bl extra wl det g = Inl ValueError \<longleftrightarrow> length ws < 2"
proof
  assume "length ws < 2"
  then show "MLP_init ws fa bl extra wl det g = Inl ValueError"
    by (simp add: MLP_init_def)
next
  assume e: "MLP_init ws fa bl extra wl det g = Inl ValueError"
  show "length ws < 2"
  proof (rule ccontr)
    assume "\<not> length ws < 2"
    with e fc_loop_not_ValueError head_loop_not_ValueError show False
      by (auto simp add: MLP_init_def Let_def and_then_def split: sum.splits option.splits)
  qed
qed

lemma fc_loop_Linear_class:
  "0 < n \<Longrightarrow> fc_loop Linear_class lw idx n st = Inl AttributeError"
  by (cases n; cases st) (simp_all add: Linear_init_def split_def)

lemma MLP_init_Linear_class:
  "2 \<le> length ws \<Longrightarrow> MLP_init ws fa False extra False det g = Inl AttributeError"
  by (simp add: MLP_init_def Let_def fc_loop_Linear_class)

lemma MLP_init_two_widths:
  assumes "0 < b" "bl \<or> wl"
  shows "\<exists>m g1 w. MLP_init [a, b] fa bl None wl det g = Inr (m, g1) \<and> seq m = [(''fc_0'', w)]
           \<and> w \<noteq> ReLU"
  using assms
  by (cases det; cases wl; cases bl)
     (simp_all add: init_eval split_def del: draws2.simps)

text \<open>
  C6. With the default primitive (\<^verbatim>\<open>bias_linear=False\<close>, \<^verbatim>\<open>w_linear=False\<close>) the
  constructor raises on a width list of two entries: the first iteration of its loop calls
  \<^verbatim>\<open>adaptation_parameters()\<close> on an \<^verbatim>\<open>nn.Linear\<close>.
\<close>

theorem MLP_init_default_raises:
  "MLP_init [1, 1] (\<lambda>x. x) False None False True g = Inl AttributeError"
  by (simp add: init_eval split_def)


text \<open>
  \<^verbatim>\<open>CVAE.__init__\<close> builds its networks with the default primitive, so it raises as well.
\<close>

lemma CVAE_init_raises:
  "CVAE_init observation_dim action_dim traj_dim latent_dim encoder_hidden prior_hidden
     decoder_hidden condition_prior preprocess g = Inl AttributeError"
  by (simp add: CVAE_init_def MLP_default_def MLP_init_Linear_class)

text \<open>
  C9. For \<^verbatim>\<open>MLP([1, 1], w_linear=True)\<close> the list \<^verbatim>\<open>aparams\<close> collected by the constructor
  holds the latent vector \<^verbatim>\<open>z\<close> alone, and \<^verbatim>\<open>adaptation_parameters()\<close> returns \<^verbatim>\<open>z\<close>
  together with the weight and the bias of the generating map.
\<close>

theorem MLP_adaptation_parameters_w_linear:
  "\<exists>m g1. MLP_init [1, 1] (\<lambda>x. x) False None True True g = Inr (m, g1) \<and>
     map fst (aparams m) = [''seq.fc_0.z''] \<and>
     map fst (MLP_adaptation_parameters m) = [''seq.fc_0.z'', ''seq.fc_0.weight'', ''seq.fc_0.fc.bias'']"
  by (simp add: init_eval split_def MLP_adaptation_parameters_def MLP_parameters_def
        Sequential_parameters_def WLinear_parameters_def del: draws2.simps)


text \<open>
  With \<^verbatim>\<open>bias_linear=True\<close> the two lists agree: every primitive answers all of its
  parameters.
\<close>

lemma Sequential_parameters_append:
  "Sequential_parameters p (a @ b) = Sequential_parameters p a @ Sequential_parameters p b"
  by (simp add: Sequential_parameters_def)

lemma new_linear_BiasLinear_class:
  "new_linear BiasLinear_class a b g = Inr (w, g1) \<Longrightarrow> \<exists>bl. w = BLin bl"
  by (auto simp add: and_then_eq_Inr)

lemma fc_loop_BiasLinear_aparams:
  assumes "fc_loop BiasLinear_class lw idx n (sq, ap, g) = Inr (sq1, ap1, g1)"
    and "ap = Sequential_parameters ''seq.'' sq"
  shows "ap1 = Sequential_parameters ''seq.'' sq1"
  using assms
proof (induction n arbitrary: idx sq ap g)
  case 0
  then show ?case by auto
next
  case (Suc n)
  from Suc.prems(1) obtain w g2 ps where
    w: "new_linear BiasLinear_class (lw ! idx) (lw ! (idx + 1)) g = Inr (w, g2)"
    and ps: "adaptation_parameters (''seq.fc_'' @ str_nat idx @ ''.'') w = Inr ps"
    and r: "fc_loop BiasLinear_class lw (idx + 1) n
         (sq @ [(''fc_'' @ str_nat idx, w)]
             @ (if idx < length lw - 2 then [(''relu_'' @ str_nat idx, ReLU)] else []),
          ap @ ps, g2) = Inr (sq1, ap1, g1)"
    by (auto simp add: and_then_eq_Inr simp del: new_linear.simps)
  from new_linear_BiasLinear_class [OF w] obtain bl where bl: "w = BLin bl" by blast
  have "ap @ ps = Sequential_parameters ''seq.''
         (sq @ [(''fc_'' @ str_nat idx, w)]
             @ (if idx < length lw - 2 then [(''relu_'' @ str_nat idx, ReLU)] else []))"
    using ps Suc.prems(2) by (auto simp add: Sequential_parameters_def bl)
  from Suc.IH [OF r this] show ?case .
qed

lemma head_loop_BiasLinear_aparams:
  assumes "head_loop BiasLinear_class lw idx n (sq, ap, g) = Inr (sq1, ap1, g1)"
    and "ap = ap0 @ Sequential_parameters ''head_seq.'' sq"
  shows "ap1 = ap0 @ Sequential_parameters ''head_seq.'' sq1"
  using assms
proof (induction n arbitrary: idx sq ap g)
  case 0
  then show ?case by auto
next
  case (Suc n)
  from Suc.prems(1) obtain w g2 ps where
    w: "new_linear BiasLinear_class (lw ! idx) (lw ! (idx + 1)) g = Inr (w, g2)"
    and ps: "adaptation_parameters (''head_seq.fc_'' @ str_nat idx @ ''.'') w = Inr ps"
    and r: "head_loop BiasLinear_class lw (idx + 1) n
         (sq @ [(''relu_'' @ str_nat idx, ReLU), (''fc_'' @ str_nat idx, w)], ap @ ps, g2)
         = Inr (sq1, ap1, g1)"
    by (auto simp add: and_then_eq_Inr simp del: new_linear.simps)
  from new_linear_BiasLinear_class [OF w] obtain bl where bl: "w = BLin bl" by blast
  have "ap @ ps = ap0 @ Sequential_parameters ''head_seq.''
         (sq @ [(''relu_'' @ str_nat idx, ReLU), (''fc_'' @ str_nat idx, w)])"
    using ps Suc.prems(2) by (auto simp add: Sequential_parameters_def bl)
  from Suc.IH [OF r this] show ?case .
qed

lemma MLP_adaptation_parameters_bias_linear:
  assumes "MLP_init ws fa True extra False det g = Inr (m, g1)"
  shows "MLP_adaptation_parameters m = aparams m"
proof -
  from assms have n: "\<not> length ws < 2"
    by (auto simp add: MLP_init_def split: if_splits)
  let ?lw = "if \<not> det then ws[length ws - 1 := ws ! (length ws - 1) * 2] else ws"
  from assms n obtain sq ap g2 where
    f: "fc_loop BiasLinear_class ?lw 0 (length ?lw - 1) ([], [], g) = Inr (sq, ap, g2)"
    by (auto simp add: MLP_init_def Let_def and_then_eq_Inr)
  have ap: "ap = Sequential_parameters ''seq.'' sq"
    by (rule fc_loop_BiasLinear_aparams [OF f]) (simp add: Sequential_parameters_def)
  show ?thesis
  proof (cases extra)
    case None
    with assms n f have "seq m = sq" "aparams m = ap" "head_seq m = []"
      by (auto simp add: MLP_init_def Let_def)
    then show ?thesis
      by (simp add: MLP_adaptation_parameters_def MLP_parameters_def ap Sequential_parameters_def)
  next
    case (Some e)
    let ?ehl = "(ws ! (length ws - 2) + ws ! (length ws - 1)) # e"
    from assms n f Some obtain hs ap2 g3 where
      h: "head_loop BiasLinear_class ?ehl 0 (length ?ehl - 1) ([], ap, g2) = Inr (hs, ap2, g3)"
      and m: "seq m = sq" "aparams m = ap2" "head_seq m = hs"
      by (auto simp add: MLP_init_def Let_def and_then_eq_Inr)
    have "ap2 = ap @ Sequential_parameters ''head_seq.'' hs"
      by (rule head_loop_BiasLinear_aparams [OF h]) (simp add: Sequential_parameters_def)
    then show ?thesis
      by (simp add: MLP_adaptation_parameters_def MLP_parameters_def ap m)
  qed
qed

section \<open>The set encoder is invariant under permutations of the elements\<close>

lemma is_permutation_mset: "is_permutation p L \<Longrightarrow> mset p = mset [0..<L]"
  unfolding is_permutation_def by (metis mset_sort)

lemma is_permutation_length: "is_permutation p L \<Longrightarrow> length p = L"
  using is_permutation_mset [of p L] by (metis length_upt mset_eq_length minus_nat.diff_0)

lemma is_permutation_set: "is_permutation p L \<Longrightarrow> set p = {0..<L}"
  using is_permutation_mset [of p L] by (metis mset_eq_setD set_upt)

lemma sum_list_permute:
  assumes "is_permutation p (length xs)"
  shows "sum_list (permute p xs) = sum_list (xs :: real list)"
proof -
  have "mset (permute p xs) = image_mset (\<lambda>i. xs ! i) (mset p)"
    by (simp add: permute_def)
  also have "\<dots> = image_mset (\<lambda>i. xs ! i) (mset [0..<length xs])"
    by (simp only: is_permutation_mset [OF assms])
  also have "\<dots> = mset (map (\<lambda>i. xs ! i) [0..<length xs])"
    by simp
  also have "\<dots> = mset xs"
    by (simp add: map_nth)
  finally have "sum_mset (mset (permute p xs)) = sum_mset (mset xs)"
    by simp
  then show ?thesis
    by (simp add: sum_mset_sum_list)
qed

lemma length_permute [simp]: "length (permute p xs) = length p"
  by (simp add: permute_def)

lemma permute_map: "set p \<subseteq> {0..<length xs} \<Longrightarrow> permute p (map f xs) = map f (permute p xs)"
  by (auto simp add: permute_def)

lemma permute_map2:
  "set p \<subseteq> {0..<length xs} \<Longrightarrow> length ys = length xs \<Longrightarrow>
   permute p (map2 f xs ys) = map2 f (permute p xs) (permute p ys)"
  by (induction p) (simp_all add: permute_def)

lemma permute_replicate: "set p \<subseteq> {0..<n} \<Longrightarrow> permute p (replicate n b) = replicate (length p) b"
  by (induction p) (simp_all add: permute_def)

lemma length_lin_comb: "\<forall>ch\<in>set chs. length ch = L \<Longrightarrow> length (lin_comb w chs b L) = L"
proof (induction chs arbitrary: w)
  case Nil
  then show ?case by (simp add: lin_comb_def)
next
  case (Cons ch chs)
  then show ?case
    by (cases w) (simp_all add: lin_comb_def)
qed

lemma permute_lin_comb:
  assumes "set p \<subseteq> {0..<L}" "length p = L" "\<forall>ch\<in>set chs. length ch = L"
  shows "lin_comb w (map (permute p) chs) b L = permute p (lin_comb w chs b L)"
  using assms(3)
proof (induction chs arbitrary: w)
  case Nil
  then show ?case using assms(1,2) by (simp add: lin_comb_def permute_replicate)
next
  case (Cons ch chs)
  show ?case
  proof (cases w)
    case Nil
    then show ?thesis using assms(1,2) by (simp add: lin_comb_def permute_replicate)
  next
    case (Cons wc ws)
    have l: "length (lin_comb ws chs b L) = L" "length ch = L"
      using Cons.prems by (simp_all add: length_lin_comb)
    have "lin_comb w (map (permute p) (ch # chs)) b L
          = map2 (+) (map (\<lambda>v. wc * v) (permute p ch)) (lin_comb ws (map (permute p) chs) b L)"
      by (simp add: lin_comb_def Cons)
    also have "\<dots> = map2 (+) (permute p (map (\<lambda>v. wc * v) ch)) (permute p (lin_comb ws chs b L))"
      using Cons.IH [of ws] Cons.prems assms(1) l by (simp add: permute_map)
    also have "\<dots> = permute p (map2 (+) (map (\<lambda>v. wc * v) ch) (lin_comb ws chs b L))"
      using assms(1) l by (simp add: permute_map2)
    also have "\<dots> = permute p (lin_comb w (ch # chs) b L)"
      by (simp add: lin_comb_def Cons)
    finally show ?thesis .
  qed
qed


lemma has_length_item: "has_length L x \<Longrightarrow> item \<in> set x \<Longrightarrow> \<forall>ch\<in>set item. length ch = L"
  by (simp add: has_length_def)

lemma Conv1d_item_permute:
  assumes "is_permutation p L" "\<forall>ch\<in>set chs. length ch = L"
  shows "Conv1d_item c (map (permute p) chs) = map_sum id (map (permute p)) (Conv1d_item c chs)"
proof -
  have p: "set p \<subseteq> {0..<L}" "length p = L"
    using assms(1) by (simp_all add: is_permutation_set is_permutation_length)
  have d: "last_dim (map (permute p) chs) = last_dim chs"
    using assms(2) p(2) by (cases chs) (simp_all add: last_dim_def)
  have e: "chs \<noteq> [] \<Longrightarrow> last_dim chs = L"
    using assms(2) by (cases chs) (simp_all add: last_dim_def)
  have u: "(\<forall>ch\<in>set (map (permute p) chs). length ch = last_dim chs) \<longleftrightarrow>
           (\<forall>ch\<in>set chs. length ch = last_dim chs)"
    using assms(2) p(2) e by (cases "chs = []") auto
  show ?thesis
  proof (cases "length chs = in_channels c \<and> (\<forall>ch\<in>set chs. length ch = last_dim chs) \<and> 0 < last_dim chs")
    case True
    then have "chs \<noteq> []" by (auto simp add: last_dim_def)
    then have L: "last_dim chs = L" by (rule e)
    have "map2 (\<lambda>w b. lin_comb w (map (permute p) chs) b L) ws bs
          = map (permute p) (map2 (\<lambda>w b. lin_comb w chs b L) ws bs)" for ws bs
      using permute_lin_comb [OF p assms(2)] by (simp add: split_def)
    with True show ?thesis
      using u by (simp add: Conv1d_item_def Let_def d L)
  next
    case False
    then show ?thesis
      using u by (auto simp add: Conv1d_item_def Let_def d)
  qed
qed

lemma Conv1d_item_length:
  assumes "Conv1d_item c chs = Inr out" "\<forall>ch\<in>set chs. length ch = L"
  shows "\<forall>ch\<in>set out. length ch = L"
proof -
  have "chs \<noteq> []" using assms(1) by (auto simp add: Conv1d_item_def Let_def last_dim_def split: if_splits)
  then have L: "last_dim chs = L" using assms(2) by (cases chs) (simp_all add: last_dim_def)
  have "out = map2 (\<lambda>w b. lin_comb w chs b L) (conv_weight c) (conv_bias c)"
    using assms(1) by (auto simp add: Conv1d_item_def Let_def L split: if_splits)
  then show ?thesis
    using length_lin_comb [OF assms(2)] by (auto simp add: set_zip)
qed

lemma collect_map_sum:
  "collect (map (\<lambda>v. map_sum id h (f v)) xs) = map_sum id (map h) (collect (map f xs))"
proof (induction xs)
  case Nil
  then show ?case by simp
next
  case (Cons a xs)
  then show ?case
    by (cases "f a"; cases "collect (map f xs)") simp_all
qed

lemma collect_Inr_set:
  "collect rs = Inr vs \<Longrightarrow> v \<in> set vs \<Longrightarrow> \<exists>r\<in>set rs. r = Inr v"
proof (induction rs arbitrary: vs)
  case Nil
  then show ?case by simp
next
  case (Cons r rs)
  then show ?case
    by (cases r; cases "collect rs") auto
qed

lemma Conv1d_forward_permute:
  assumes "is_permutation p L" "has_length L x"
  shows "Conv1d_forward c (permute_last p x) = map_sum id (permute_last p) (Conv1d_forward c x)"
proof -
  have "map (Conv1d_item c) (permute_last p x)
        = map (\<lambda>item. map_sum id (map (permute p)) (Conv1d_item c item)) x"
    using assms by (simp add: permute_last_def Conv1d_item_permute has_length_item)
  then show ?thesis
    unfolding Conv1d_forward_def
    by (simp only: collect_map_sum) (simp add: permute_last_def [abs_def])
qed

lemma Conv1d_forward_length:
  assumes "Conv1d_forward c x = Inr y" "has_length L x"
  shows "has_length L y"
  unfolding has_length_def
proof (intro ballI)
  fix item ch assume i: "item \<in> set y" "ch \<in> set item"
  from collect_Inr_set [OF assms(1) [unfolded Conv1d_forward_def] i(1)]
  obtain it where "it \<in> set x" "Conv1d_item c it = Inr item" by auto
  with Conv1d_item_length [of c it item L] has_length_item [OF assms(2)] i(2)
  show "length ch = L" by blast
qed

lemma relu_permute:
  assumes "is_permutation p L" "has_length L x"
  shows "map relu (permute_last p x) = permute_last p (map relu x)"
proof -
  have "set p \<subseteq> {0..<L}" using assms(1) by (simp add: is_permutation_set)
  then show ?thesis
    using assms(2) by (simp add: permute_last_def relu_def permute_map has_length_def)
qed

lemma relu_length: "has_length L x \<Longrightarrow> has_length L (map relu x)"
  by (auto simp add: has_length_def relu_def)

lemma enc_module_forward_permute:
  assumes "is_permutation p L" "has_length L x"
  shows "enc_module_forward m (permute_last p x) = map_sum id (permute_last p) (enc_module_forward m x)"
  using assms by (cases m) (simp_all add: Conv1d_forward_permute relu_permute)

lemma enc_module_forward_length:
  "enc_module_forward m x = Inr y \<Longrightarrow> has_length L x \<Longrightarrow> has_length L y"
  by (cases m) (auto simp add: Conv1d_forward_length relu_length)

lemma encoder_forward_permute:
  assumes "is_permutation p L"
  shows "has_length L x \<Longrightarrow>
         encoder_forward ms (permute_last p x) = map_sum id (permute_last p) (encoder_forward ms x)"
proof (induction ms arbitrary: x)
  case Nil
  then show ?case by simp
next
  case (Cons m ms)
  show ?case
  proof (cases "enc_module_forward (snd m) x")
    case (Inl e)
    then show ?thesis
      using enc_module_forward_permute [OF assms Cons.prems, of "snd m"] by simp
  next
    case (Inr y)
    then have "has_length L y" using Cons.prems by (rule enc_module_forward_length)
    then show ?thesis
      using enc_module_forward_permute [OF assms Cons.prems, of "snd m"] Inr Cons.IH [of y] by simp
  qed
qed

lemma encoder_forward_length:
  "encoder_forward ms x = Inr y \<Longrightarrow> has_length L x \<Longrightarrow> has_length L y"
proof (induction ms arbitrary: x)
  case Nil
  then show ?case by simp
next
  case (Cons m ms)
  then show ?case
    by (cases "enc_module_forward (snd m) x") (auto dest: enc_module_forward_length)
qed

lemma aggregator_permute:
  assumes "is_permutation p L" "has_length L y"
  shows "aggregator (permute_last p y) = aggregator y"
proof -
  have "sum_list (permute p ch) / real (length (permute p ch)) = sum_list ch / real (length ch)"
    if "item \<in> set y" "ch \<in> set item" for item ch
  proof -
    have "length ch = L" using that assms(2) by (simp add: has_length_def)
    then show ?thesis
      using assms(1) by (simp add: sum_list_permute is_permutation_length)
  qed
  then show ?thesis
    by (simp add: aggregator_def permute_last_def)
qed


text \<open>
  C5. For an input whose channels all have \<open>L\<close> elements and a permutation \<open>p\<close> of the
  \<open>L\<close> positions, \<^verbatim>\<open>DeepSet.forward\<close> on the permuted input equals \<^verbatim>\<open>DeepSet.forward\<close>
  on the input, an error included.
\<close>

theorem DeepSet_permutation_invariant:
  assumes "is_permutation p L" "has_length L x"
  shows "DeepSet_forward d (permute_last p x) = DeepSet_forward d x"
proof (cases "encoder_forward (encoder d) x")
  case (Inl e)
  then show ?thesis
    by (simp add: DeepSet_forward_def encoder_forward_permute [OF assms])
next
  case (Inr y)
  then have "has_length L y" using assms(2) by (rule encoder_forward_length)
  then show ?thesis
    using Inr by (simp add: DeepSet_forward_def encoder_forward_permute [OF assms] aggregator_permute [OF assms(1)])
qed


lemmas deepset_eval =
  DeepSet_forward_def Conv1d_forward_def Conv1d_item_def lin_comb_def aggregator_def
  relu_def last_dim_def permute_last_def permute_def Let_def

theorem DeepSet_permutation_invariant_witness:
  "is_permutation [1, 0] 2 \<and> has_length 2 [[[1, 2]]] \<and>
   permute_last [1, 0] [[[1, 2]]] = [[[2, 1]]] \<and>
   DeepSet_forward \<lparr>encoder = [(''0'', Conv (Conv1d 1 1 [[2]] [1])), (''1'', Relu)]\<rparr> [[[2, 1]]] = Inr [[4]] \<and>
   DeepSet_forward \<lparr>encoder = [(''0'', Conv (Conv1d 1 1 [[2]] [1])), (''1'', Relu)]\<rparr> [[[1, 2]]] = Inr [[4]]"
proof -
  have p: "is_permutation [1, 0] 2"
    by (simp add: is_permutation_def numeral_2_eq_2)
  have h: "has_length 2 [[[1, 2]]]"
    by (simp add: has_length_def)
  have e: "permute_last [1, 0] [[[1, 2]]] = [[[2, 1]]]"
    by (simp add: permute_last_def permute_def)
  have v: "DeepSet_forward \<lparr>encoder = [(''0'', Conv (Conv1d 1 1 [[2]] [1])), (''1'', Relu)]\<rparr> [[[1, 2]]] = Inr [[4]]"
    by (simp add: deepset_eval)
  show ?thesis
    using DeepSet_permutation_invariant [OF p h, of "\<lparr>encoder = [(''0'', Conv (Conv1d 1 1 [[2]] [1])), (''1'', Relu)]\<rparr>"]
    by (simp only: p h e v simp_thms)
qed

section \<open>The twin critic\<close>

lemma collect_map2_Inr:
  "length a = length b \<Longrightarrow> \<forall>(u, v)\<in>set (zip a b). f u v = Inr (h u v) \<Longrightarrow>
   collect (map2 f a b) = Inr (map2 h a b)"
  by (induction a b rule: list_induct2) simp_all

lemma broadcast_row_same: "length u = length v \<Longrightarrow> broadcast_row f u v = Inr (map2 f u v)"
  by (simp add: broadcast_row_def bdim_def expand_def)

lemma broadcast2_same:
  assumes "map length a = map length b"
  shows "broadcast2 f a b = Inr (map2 (map2 f) a b)"
proof -
  have l: "length a = length b"
    using assms by (metis length_map)
  have "\<forall>(u, v)\<in>set (zip a b). broadcast_row f u v = Inr (map2 f u v)"
  proof (clarify)
    fix u v assume "(u, v) \<in> set (zip a b)"
    then obtain i where "i < length a" "u = a ! i" "v = b ! i"
      using l by (auto simp add: set_zip)
    then have "length u = length v"
      using assms l by (metis nth_map)
    then show "broadcast_row f u v = Inr (map2 f u v)"
      by (rule broadcast_row_same)
  qed
  then show ?thesis
    using l by (simp add: broadcast2_def bdim_def expand_def collect_map2_Inr)
qed

lemma minimum_same: "map length a = map length b \<Longrightarrow> minimum a b = Inr (map2 (map2 min) a b)"
  by (simp add: minimum_def broadcast2_same)

text \<open>
  C7. \<^verbatim>\<open>forward(x, return_min=True)\<close> is \<^verbatim>\<open>torch.minimum\<close> of the two outputs that
  \<^verbatim>\<open>forward(x, return_min=False)\<close> returns, and raises when that call raises; for two
  outputs of one shape it is their entry-wise minimum.
\<close>

theorem TwinValueFunction_return_min:
  "TwinValueFunction_forward t x True =
     and_then (TwinValueFunction_forward t x False) (\<lambda>r.
       case r of Both x1 x2 \<Rightarrow> and_then (minimum x1 x2) (\<lambda>m. Inr (Minimum m))
               | Minimum m \<Rightarrow> Inr (Minimum m)) \<and>
   (\<forall>x1 x2. TwinValueFunction_forward t x False = Inr (Both x1 x2) \<and>
             map length x1 = map length x2 \<longrightarrow>
      TwinValueFunction_forward t x True = Inr (Minimum (map2 (map2 min) x1 x2)))"
  by (cases "Sequential_forward (f1 t) x"; cases "Sequential_forward (f2 t) x")
     (simp_all add: TwinValueFunction_forward_def minimum_same)

theorem TwinValueFunction_return_min_witness:
  "TwinValueFunction_forward
     \<lparr>obs_dim = 1, act_dim = 0,
      f1 = [(''0'', WLin (WLinear [1] (Linear 1 2 [[1], [0]] [0, 0]) 1 1))],
      f2 = [(''0'', WLin (WLinear [1] (Linear 1 2 [[2], [0]] [0, 0]) 1 1))]\<rparr> [[1], [- 1]] False
     = Inr (Both [[1], [- 1]] [[2], [- 2]]) \<and>
   TwinValueFunction_forward
     \<lparr>obs_dim = 1, act_dim = 0,
      f1 = [(''0'', WLin (WLinear [1] (Linear 1 2 [[1], [0]] [0, 0]) 1 1))],
      f2 = [(''0'', WLin (WLinear [1] (Linear 1 2 [[2], [0]] [0, 0]) 1 1))]\<rparr> [[1], [- 1]] True
     = Inr (Minimum [[1], [- 2]])"
proof -
  let ?t = "\<lparr>obs_dim = 1, act_dim = 0,
      f1 = [(''0'', WLin (WLinear [1] (Linear 1 2 [[1], [0]] [0, 0]) 1 1))],
      f2 = [(''0'', WLin (WLinear [1] (Linear 1 2 [[2], [0]] [0, 0]) 1 1))]\<rparr>"
  have f: "TwinValueFunction_forward ?t [[1], [- 1]] False = Inr (Both [[1], [- 1]] [[2], [- 2]])"
    by (simp add: TwinValueFunction_forward_def WLinear_forward_def Linear_forward_vec_def
          dot_def view_def matmul_def broadcast2_def broadcast_row_def bdim_def expand_def
          last_dim_def)
  have e: "map length [[1], [- 1 :: real]] = map length [[2], [- 2 :: real]]"
    by simp
  from TwinValueFunction_return_min [of ?t "[[1], [- 1]]"] f e
  have "TwinValueFunction_forward ?t [[1], [- 1]] True
        = Inr (Minimum (map2 (map2 min) [[1], [- 1]] [[2], [- 2]]))"
    by blast
  then have "TwinValueFunction_forward ?t [[1], [- 1]] True = Inr (Minimum [[1], [- 2]])"
    by simp
  with f show ?thesis
    by (rule conjI)
qed

section \<open>The reparameterised sample\<close>







section \<open>The latent-variable model: cached latent\<close>

lemma with_sample_False [simp]: "with_sample r False g = Inr ((r, None), g)"
  by (simp add: with_sample_def)







section \<open>The latent-variable model: the returned standard deviation\<close>




end
